theory Spec2Isabelle
  imports Main "HOL-Library.Sublist" "HOL-Library.Word"
begin

section \<open>Python strings\<close>

text \<open>
  A Python \<open>str\<close> is a sequence of Unicode code points. A code point is a natural
  number here, so that \<open>str.strip()\<close> can be given its real whitespace set; string
  constants of the source are written as literals and converted by \<open>str\<close>.
  An optional argument (\<open>str | None\<close>) is a \<open>pystr option\<close>.
\<close>

type_synonym pystr = "nat list"

definition str :: "string \<Rightarrow> pystr" where
  "str cs = map of_char cs"

definition NL :: nat where
  "NL = 10"

definition LBRACKET :: nat where
  "LBRACKET = 91"

definition RBRACKET :: nat where
  "RBRACKET = 93"

definition QUOTE :: nat where
  "QUOTE = 34"

text \<open>
  \<open>str.isspace\<close> for one code point: the characters CPython's
  \<open>_PyUnicode_IsWhitespace\<close> accepts.
\<close>

definition is_space :: "nat \<Rightarrow> bool" where
  "is_space c =
     ((9 \<le> c \<and> c \<le> 13) \<or> (28 \<le> c \<and> c \<le> 32) \<or> c = 133 \<or> c = 160 \<or> c = 5760 \<or>
      (8192 \<le> c \<and> c \<le> 8202) \<or> c = 8232 \<or> c = 8233 \<or> c = 8239 \<or> c = 8287 \<or>
      c = 12288)"

text \<open>\<open>s.strip()\<close>: whitespace removed at both ends.\<close>

definition py_strip :: "pystr \<Rightarrow> pystr" where
  "py_strip s = rev (dropWhile is_space (rev (dropWhile is_space s)))"

text \<open>
  \<open>s.split(sep)\<close> for a separator of one character: a scan that closes the current
  piece at every separator. The result is never empty (\<open>''''.split(sep) = ['''']\<close>).
\<close>

fun split_from :: "'a \<Rightarrow> 'a list \<Rightarrow> 'a list \<Rightarrow> 'a list list" where
  "split_from sep piece [] = [piece]"
| "split_from sep piece (c # cs) =
     (if c = sep then piece # split_from sep [] cs else split_from sep (piece @ [c]) cs)"

definition py_split :: "'a list \<Rightarrow> 'a \<Rightarrow> 'a list list" where
  "py_split s sep = split_from sep [] s"

text \<open>\<open>sep.join(xs)\<close>.\<close>

fun py_join :: "'a list \<Rightarrow> 'a list list \<Rightarrow> 'a list" where
  "py_join sep [] = []"
| "py_join sep [x] = x"
| "py_join sep (x # y # ys) = x @ sep @ py_join sep (y # ys)"

text \<open>\<open>s.startswith(p)\<close>.\<close>

definition py_startswith :: "'a list \<Rightarrow> 'a list \<Rightarrow> bool" where
  "py_startswith s p = prefix p s"

text \<open>
  The lowest index at which \<open>sub\<close> occurs in \<open>s\<close>, if any. \<open>sub in s\<close> and
  \<open>s.find(sub, start)\<close> are both read off it.
\<close>

fun find_sub :: "'a list \<Rightarrow> 'a list \<Rightarrow> nat option" where
  "find_sub sub [] = (if sub = [] then Some 0 else None)"
| "find_sub sub (c # s) =
     (if prefix sub (c # s) then Some 0 else map_option Suc (find_sub sub s))"

definition py_in :: "'a list \<Rightarrow> 'a list \<Rightarrow> bool" where
  "py_in sub s = (find_sub sub s \<noteq> None)"

text \<open>
  \<open>s.find(sub, start)\<close>: a negative \<open>start\<close> counts from the end, and the answer is
  \<open>-1\<close> when there is no occurrence at or after \<open>start\<close>.
\<close>

definition py_find :: "'a list \<Rightarrow> 'a list \<Rightarrow> int \<Rightarrow> int" where
  "py_find s sub start =
     (let n = int (length s);
          st = (if start < 0 then max 0 (start + n) else start)
      in if n < st then - 1
         else (case find_sub sub (drop (nat st) s) of
                 None \<Rightarrow> - 1
               | Some i \<Rightarrow> st + int i))"

text \<open>\<open>s[start:end]\<close>: negative bounds count from the end, both are clamped.\<close>

definition py_slice :: "'a list \<Rightarrow> int \<Rightarrow> int \<Rightarrow> 'a list" where
  "py_slice s start end =
     (let n = int (length s);
          lo = (if start < 0 then max 0 (start + n) else min start n);
          hi = (if end < 0 then max 0 (end + n) else min end n)
      in take (nat (hi - lo)) (drop (nat lo) s))"

text \<open>\<open>f"{x}"\<close> for a value of type \<open>str | None\<close>.\<close>

definition py_format :: "pystr option \<Rightarrow> pystr" where
  "py_format x = (case x of None \<Rightarrow> str ''None'' | Some s \<Rightarrow> s)"

text \<open>The truth value of a \<open>str | None\<close>: false for \<open>None\<close> and for the empty string.\<close>

definition truthy :: "pystr option \<Rightarrow> bool" where
  "truthy x = (case x of None \<Rightarrow> False | Some s \<Rightarrow> s \<noteq> [])"

section \<open>Constants and the mode of transcription\<close>

definition WHISPER_CPP_PATH :: pystr where
  "WHISPER_CPP_PATH = str ''./whisper.cpp''"

definition PREFIX_WHISPER_CPP_CLI :: pystr where
  "PREFIX_WHISPER_CPP_CLI = WHISPER_CPP_PATH @ str ''/build/bin/whisper-cli''"

datatype TranscriptionMode = FILE | URL | YOUTUBE | NOT_DETERMINED

text \<open>
  Lines 35 to 43 of \<open>transcribe\<close>: the value of \<open>_mode\<close> after the chain of
  conditionals. The last branch is the one that reports the missing input and returns.
\<close>

definition transcription_mode :: "pystr option \<Rightarrow> pystr option \<Rightarrow> TranscriptionMode" where
  "transcription_mode file_path url =
     (if truthy file_path then FILE
      else (case url of
              None \<Rightarrow> NOT_DETERMINED
            | Some u \<Rightarrow>
                if u \<noteq> [] then
                  (if py_startswith u (str ''https://www.youtube.com/watch?v='') \<or>
                      py_startswith u (str ''https://youtu.be/'')
                   then YOUTUBE else URL)
                else NOT_DETERMINED))"

section \<open>Extraction of the transcript\<close>

text \<open>
  Lines 66 to 71 of \<open>transcribe\<close>. The loop over the lines of the captured output
  appends to \<open>transcription_lines\<close>; the accumulator is that list.
\<close>

definition is_caption :: "pystr \<Rightarrow> bool" where
  "is_caption line = (py_startswith line [LBRACKET] \<and> py_in (str ''-->'') line)"

definition caption_text :: "pystr \<Rightarrow> pystr" where
  "caption_text line = py_strip (last (py_split line RBRACKET))"

fun extract_loop :: "pystr list \<Rightarrow> pystr list \<Rightarrow> pystr list" where
  "extract_loop [] transcription_lines = transcription_lines"
| "extract_loop (line # rest) transcription_lines =
     extract_loop rest
       (if is_caption line then transcription_lines @ [caption_text line]
        else transcription_lines)"

definition transcription_lines :: "pystr \<Rightarrow> pystr list" where
  "transcription_lines stdout = extract_loop (py_split stdout NL) []"

definition transcription :: "pystr \<Rightarrow> pystr" where
  "transcription stdout = py_join [NL] (transcription_lines stdout)"

section \<open>The catalog of models\<close>

definition MARKER :: pystr where
  "MARKER = str ''models='' @ [QUOTE]"

text \<open>
  Lines 118 to 125 of \<open>_get_whisper_models\<close>, on the text that was read. Nothing
  looks at whether \<open>find\<close> answered \<open>-1\<close>.
\<close>

definition models_of_content :: "pystr \<Rightarrow> pystr list" where
  "models_of_content content =
     (let start = py_find content MARKER 0 + 8;
          end = py_find content [QUOTE] start;
          models_text = py_slice content start end
      in py_split (py_strip models_text) NL)"

text \<open>
  The exceptions of the program. The source raises one itself,
  \<open>Exception(f"Failed to download file. Status: {response.status_code}")\<close>, which is
  \<open>Failed_to_download\<close> with the status code. The others come from the libraries:
  \<open>OSError\<close> from \<open>open\<close> and from launching a program, \<open>DownloadError\<close> from
  yt-dlp, \<open>RequestException\<close> from \<open>requests.get\<close>, \<open>CalledProcessError\<close> with the
  return code from \<open>subprocess.run(..., check=True)\<close>, \<open>UnicodeDecodeError\<close> from
  \<open>subprocess.run(..., text=True)\<close> on output that cannot be decoded, and \<open>TypeError\<close>
  for a \<open>None\<close> used as a string.

  \<open>_get_whisper_models\<close>: its input is what reading
  \<open>./whisper.cpp/models/download-ggml-model.sh\<close> gives, \<open>None\<close> when the file
  cannot be opened, which raises.
\<close>

datatype error =
    OSError
  | DownloadError
  | RequestException
  | Failed_to_download int
  | CalledProcessError int
  | UnicodeDecodeError
  | TypeError

definition get_whisper_models :: "pystr option \<Rightarrow> error + pystr list" where
  "get_whisper_models manifest_file =
     (case manifest_file of
        None \<Rightarrow> Inl OSError
      | Some content \<Rightarrow> Inr (models_of_content content))"

section \<open>The outside world\<close>

text \<open>
  What the program does to the outside is a trace of events, in order, and the contents
  of the files it writes itself. What an external program writes is not followed: the
  call is the event. Opening the transcript file, whose path comes from the user, can
  fail: the environment says so. Opening the download's file, a fixed name in the working
  directory, and writing to an open file are taken to succeed.

  The messages are the \<open>typer.echo\<close> texts of the source, with the interpolated
  values as arguments:
  \<^item> \<open>Either_file_path_or_url\<close>: "Either file_path or youtube_url must be provided."
  \<^item> \<open>Model_not_found models\<close>: "Model not found. Available models: \{models\}"
  \<^item> \<open>Transcription_saved p\<close>: "Transcription saved to p", where p is
    \<open>audio_path\<close> followed by \<open>.txt\<close>
  \<^item> \<open>Successfully_downloaded model\<close>: "Successfully downloaded \{model\}, preparing
    CoreML model..."
  \<^item> \<open>CoreML_completed\<close>: "CoreML model preparation completed successfully"
  \<^item> \<open>CoreML_failed\<close>: "CoreML model preparation failed"
  \<^item> \<open>Command_failed rc\<close>: "Command failed with return code \{rc\}"
\<close>

type_synonym byte = "8 word"

datatype filedata = Text pystr | Binary "byte list"

datatype message =
    Either_file_path_or_url
  | Model_not_found "pystr list"
  | Transcription_saved pystr
  | Successfully_downloaded pystr
  | CoreML_completed
  | CoreML_failed
  | Command_failed int

datatype call =
    YoutubeDL_download pystr pystr
  | Requests_get pystr "(pystr \<times> pystr) list"
  | Shell pystr
  | Exec "pystr list"

datatype event =
    Echo message
  | Echo_err message
  | Call call
  | Open_write pystr

record world =
  files :: "pystr \<rightharpoonup> filedata"
  trace :: "event list"

text \<open>
  The answers of the outside: the manifest as read, yt-dlp (\<open>None\<close> when it returns
  normally), \<open>requests.get\<close>, the shell command of the inference engine (its result,
  or the error that \<open>subprocess.run\<close> raises), a program run from an argument vector
  (its return code, or the error of launching it), and \<open>open(path, "w")\<close> (\<open>None\<close>
  when the file is opened, the error otherwise).
\<close>

record response =
  status_code :: int
  iter_content :: "byte list list"

record completed_process =
  returncode :: int
  stdout :: pystr
  stderr :: pystr

record env =
  manifest :: "pystr option"
  ydl_download :: "pystr \<Rightarrow> pystr \<Rightarrow> error option"
  requests_get :: "pystr \<Rightarrow> (pystr \<times> pystr) list \<Rightarrow> error + response"
  run_shell :: "pystr \<Rightarrow> error + completed_process"
  run_argv :: "pystr list \<Rightarrow> error + int"
  open_text :: "pystr \<Rightarrow> error option"

definition emit :: "event \<Rightarrow> world \<Rightarrow> world" where
  "emit e w = w\<lparr>trace := trace w @ [e]\<rparr>"

text \<open>\<open>open(path, "w")\<close> and \<open>open(path, "wb")\<close> create the file or empty it.\<close>

definition open_write :: "pystr \<Rightarrow> filedata \<Rightarrow> world \<Rightarrow> world" where
  "open_write path blank w = emit (Open_write path) (w\<lparr>files := (files w)(path \<mapsto> blank)\<rparr>)"

definition write_bytes :: "pystr \<Rightarrow> byte list \<Rightarrow> world \<Rightarrow> world" where
  "write_bytes path chunk w =
     w\<lparr>files := (files w)(path \<mapsto>
          (case files w path of
             Some (Binary bs) \<Rightarrow> Binary (bs @ chunk)
           | _ \<Rightarrow> Binary chunk))\<rparr>"

definition write_text :: "pystr \<Rightarrow> pystr \<Rightarrow> world \<Rightarrow> world" where
  "write_text path s w =
     w\<lparr>files := (files w)(path \<mapsto>
          (case files w path of
             Some (Text t) \<Rightarrow> Text (t @ s)
           | _ \<Rightarrow> Text s))\<rparr>"

section \<open>Acquisition of the audio\<close>

definition download_file_from_youtube ::
  "env \<Rightarrow> pystr \<Rightarrow> pystr \<Rightarrow> world \<Rightarrow> (error + pystr) \<times> world" where
  "download_file_from_youtube e url filename w =
     (let w1 = emit (Call (YoutubeDL_download url filename)) w
      in case ydl_download e url filename of
           Some ex \<Rightarrow> (Inl ex, w1)
         | None \<Rightarrow> (Inr (filename @ str ''.wav''), w1))"

text \<open>The loop over \<open>response.iter_content(chunk_size=1024)\<close>: empty chunks are skipped.\<close>

fun write_chunks :: "pystr \<Rightarrow> byte list list \<Rightarrow> world \<Rightarrow> world" where
  "write_chunks filename [] w = w"
| "write_chunks filename (chunk # rest) w =
     write_chunks filename rest (if chunk \<noteq> [] then write_bytes filename chunk w else w)"

definition download_file_from_url ::
  "env \<Rightarrow> pystr \<Rightarrow> pystr \<Rightarrow> (pystr \<times> pystr) list option \<Rightarrow> world \<Rightarrow> (error + pystr) \<times> world" where
  "download_file_from_url e url filename url_headers w =
     (let headers = (case url_headers of None \<Rightarrow> [] | Some h \<Rightarrow> h);
          w1 = emit (Call (Requests_get url headers)) w
      in case requests_get e url headers of
           Inl ex \<Rightarrow> (Inl ex, w1)
         | Inr response \<Rightarrow>
             if status_code response = 200 then
               (Inr filename,
                write_chunks filename (iter_content response) (open_write filename (Binary []) w1))
             else (Inl (Failed_to_download (status_code response)), w1))"

text \<open>
  Lines 52 to 57 of \<open>transcribe\<close>. \<open>url\<close> is a \<open>str | None\<close> that is passed where a
  \<open>str\<close> is expected; the branch for \<open>None\<close> is never taken with the mode that
  \<open>transcribe\<close> computes.
\<close>

definition acquire_audio ::
  "env \<Rightarrow> TranscriptionMode \<Rightarrow> pystr option \<Rightarrow> pystr option \<Rightarrow> world
     \<Rightarrow> (error + pystr option) \<times> world" where
  "acquire_audio e mode file_path url w =
     (if mode = YOUTUBE then
        (case url of
           None \<Rightarrow> (Inl TypeError, w)
         | Some u \<Rightarrow>
             (case download_file_from_youtube e u (str ''yt_audio'') w of
                (Inl ex, w1) \<Rightarrow> (Inl ex, w1)
              | (Inr p, w1) \<Rightarrow> (Inr (Some p), w1)))
      else if mode = URL then
        (case url of
           None \<Rightarrow> (Inl TypeError, w)
         | Some u \<Rightarrow>
             (case download_file_from_url e u (str ''url_audio'') None w of
                (Inl ex, w1) \<Rightarrow> (Inl ex, w1)
              | (Inr p, w1) \<Rightarrow> (Inr (Some p), w1)))
      else (Inr file_path, w))"

section \<open>The workflows\<close>

text \<open>
  Lines 59 to 75 of \<open>transcribe\<close>: inference, extraction, the transcript file. The
  return code of the result is not read. An error of \<open>subprocess.run\<close> or of
  \<open>open\<close> is not caught.
\<close>

definition inference_command :: "pystr \<Rightarrow> pystr option \<Rightarrow> pystr" where
  "inference_command model audio_path =
     PREFIX_WHISPER_CPP_CLI @ str '' -m '' @ WHISPER_CPP_PATH @ str ''/models/ggml-'' @ model @
     str ''.bin -f '' @ py_format audio_path"

definition transcript_path :: "pystr option \<Rightarrow> pystr" where
  "transcript_path audio_path = py_format audio_path @ str ''.txt''"

definition infer_and_save ::
  "env \<Rightarrow> pystr \<Rightarrow> pystr option \<Rightarrow> world \<Rightarrow> (error + unit) \<times> world" where
  "infer_and_save e model audio_path w =
     (let cmd = inference_command model audio_path;
          w1 = emit (Call (Shell cmd)) w
      in case run_shell e cmd of
           Inl ex \<Rightarrow> (Inl ex, w1)
         | Inr result \<Rightarrow>
             (let transcript = transcription (stdout result)
              in case open_text e (transcript_path audio_path) of
                   Some ex \<Rightarrow> (Inl ex, w1)
                 | None \<Rightarrow>
                     (let w2 = write_text (transcript_path audio_path) transcript
                                 (open_write (transcript_path audio_path) (Text []) w1)
                      in (Inr (),
                          emit (Echo (Transcription_saved (transcript_path audio_path))) w2))))"

definition transcribe ::
  "env \<Rightarrow> pystr \<Rightarrow> pystr option \<Rightarrow> pystr option \<Rightarrow> world \<Rightarrow> (error + unit) \<times> world" where
  "transcribe e model file_path url w =
     (let mode = transcription_mode file_path url
      in if mode = NOT_DETERMINED then (Inr (), emit (Echo_err Either_file_path_or_url) w)
         else (case get_whisper_models (manifest e) of
                 Inl ex \<Rightarrow> (Inl ex, w)
               | Inr models \<Rightarrow>
                   if model \<notin> set models then (Inr (), emit (Echo_err (Model_not_found models)) w)
                   else (case acquire_audio e mode file_path url w of
                           (Inl ex, w1) \<Rightarrow> (Inl ex, w1)
                         | (Inr audio_path, w1) \<Rightarrow> infer_and_save e model audio_path w1)))"

text \<open>
  \<open>subprocess.run(argv, check=True)\<close>: a return code other than 0 raises
  \<open>CalledProcessError\<close>.
\<close>

definition run_checked :: "env \<Rightarrow> pystr list \<Rightarrow> world \<Rightarrow> (error + int) \<times> world" where
  "run_checked e argv w =
     (let w1 = emit (Call (Exec argv)) w
      in case run_argv e argv of
           Inl ex \<Rightarrow> (Inl ex, w1)
         | Inr rc \<Rightarrow> if rc \<noteq> 0 then (Inl (CalledProcessError rc), w1) else (Inr rc, w1))"

text \<open>
  The body of the \<open>try\<close> of \<open>download_model\<close>. The second program is run from a list
  of one string, the script's path, a space and the model.
\<close>

definition download_argv :: "pystr \<Rightarrow> pystr list" where
  "download_argv model = [WHISPER_CPP_PATH @ str ''/models/download-ggml-model.sh'', model]"

definition prepare_argv :: "pystr \<Rightarrow> pystr list" where
  "prepare_argv model = [WHISPER_CPP_PATH @ str ''/models/generate-coreml-model.sh '' @ model]"

definition download_and_prepare :: "env \<Rightarrow> pystr \<Rightarrow> world \<Rightarrow> (error + unit) \<times> world" where
  "download_and_prepare e model w =
     (case run_checked e (download_argv model) w of
        (Inl ex, w1) \<Rightarrow> (Inl ex, w1)
      | (Inr rc, w1) \<Rightarrow>
          if rc = 0 then
            (let w2 = emit (Echo (Successfully_downloaded model)) w1
             in case run_checked e (prepare_argv model) w2 of
                  (Inl ex, w3) \<Rightarrow> (Inl ex, w3)
                | (Inr rc2, w3) \<Rightarrow>
                    if rc2 = 0 then (Inr (), emit (Echo CoreML_completed) w3)
                    else (Inr (), emit (Echo_err CoreML_failed) w3))
          else (Inr (), w1))"

definition download_model :: "env \<Rightarrow> pystr \<Rightarrow> world \<Rightarrow> (error + unit) \<times> world" where
  "download_model e model w =
     (case get_whisper_models (manifest e) of
        Inl ex \<Rightarrow> (Inl ex, w)
      | Inr models \<Rightarrow>
          if model \<notin> set models then (Inr (), emit (Echo_err (Model_not_found models)) w)
          else (case download_and_prepare e model w of
                  (Inl (CalledProcessError rc), w1) \<Rightarrow> (Inr (), emit (Echo_err (Command_failed rc)) w1)
                | r \<Rightarrow> r))"

section \<open>An example environment\<close>

text \<open>
  A world with no file and no event, and an environment given by its manifest, the
  response to every request, the result of every shell command and the program runner;
  yt-dlp returns normally and every file can be opened. In the second environment the
  directory \<open>nodir\<close> does not exist. The third runner is the layout of the model
  directory: the two scripts are there, with their exit codes, and nothing else can be
  launched.
\<close>

definition quiet_world :: world where
  "quiet_world = \<lparr>files = Map.empty, trace = []\<rparr>"

definition example_env ::
  "pystr option \<Rightarrow> response \<Rightarrow> completed_process \<Rightarrow> (pystr list \<Rightarrow> error + int) \<Rightarrow> env" where
  "example_env m r p a =
     \<lparr>manifest = m, ydl_download = (\<lambda>url filename. None), requests_get = (\<lambda>url headers. Inr r),
      run_shell = (\<lambda>cmd. Inr p), run_argv = a, open_text = (\<lambda>path. None)\<rparr>"

definition without_nodir :: "env \<Rightarrow> env" where
  "without_nodir e =
     e\<lparr>open_text := \<lambda>path. if prefix (str ''nodir/'') path then Some OSError else None\<rparr>"

definition with_returncode :: "int \<Rightarrow> env \<Rightarrow> env" where
  "with_returncode rc e =
     e\<lparr>run_shell := \<lambda>cmd.
          (case run_shell e cmd of
             Inl ex \<Rightarrow> Inl ex
           | Inr result \<Rightarrow> Inr (result\<lparr>returncode := rc\<rparr>))\<rparr>"

definition scripts_layout :: "int \<Rightarrow> int \<Rightarrow> pystr list \<Rightarrow> error + int" where
  "scripts_layout download_rc prepare_rc argv =
     (case argv of
        [] \<Rightarrow> Inl OSError
      | program # args \<Rightarrow>
          if program = str ''./whisper.cpp/models/download-ggml-model.sh'' then Inr download_rc
          else if program = str ''./whisper.cpp/models/generate-coreml-model.sh''
          then Inr prepare_rc
          else Inl OSError)"

definition example_manifest :: pystr where
  "example_manifest = str ''# Whisper models\<newline>models='' @ [QUOTE] @ str ''tiny\<newline>base'' @ [QUOTE] @ str ''\<newline>''"

section \<open>The specification's wording\<close>

text \<open>
  Definitions that follow the words of the specification, to be compared with the ones
  above. The text after the last occurrence of a character is what remains of the line
  behind it, and the whole line when the character does not occur.
\<close>

definition text_after_last :: "'a \<Rightarrow> 'a list \<Rightarrow> 'a list" where
  "text_after_last c s = rev (takeWhile (\<lambda>x. x \<noteq> c) (rev s))"

text \<open>
  The classification as the specification words it: a non-empty file path selects the
  local file; otherwise a supplied URL is a YouTube URL or a direct URL; with neither,
  the mode is not determined.
\<close>

definition claimed_mode :: "pystr option \<Rightarrow> pystr option \<Rightarrow> TranscriptionMode" where
  "claimed_mode file_path url =
     (if truthy file_path then FILE
      else (case url of
              None \<Rightarrow> NOT_DETERMINED
            | Some u \<Rightarrow>
                if prefix (str ''https://www.youtube.com/watch?v='') u \<or>
                   prefix (str ''https://youtu.be/'') u
                then YOUTUBE else URL))"


section \<open>Facts about the string operations\<close>

lemma str_Nil: "str [] = []"
  by (simp add: str_def)

lemma str_Cons: "str (c # cs) = of_char c # str cs"
  by (simp add: str_def)

lemma split_from_no_sep: "sep \<notin> set s \<Longrightarrow> split_from sep piece s = [piece @ s]"
  by (induction s arbitrary: piece) auto

lemma split_from_append:
  "sep \<notin> set a \<Longrightarrow> split_from sep piece (a @ sep # b) = (piece @ a) # split_from sep [] b"
  by (induction a arbitrary: piece) auto

lemma split_from_not_Nil: "split_from sep piece s \<noteq> []"
  by (induction s arbitrary: piece) auto

lemma last_split_from:
  "last (split_from sep piece s) =
     (if sep \<in> set s then rev (takeWhile (\<lambda>c. c \<noteq> sep) (rev s)) else piece @ s)"
proof (induction s arbitrary: piece)
  case Nil
  show ?case by simp
next
  case (Cons c cs)
  show ?case
  proof (cases "c = sep")
    case True
    then show ?thesis
      using Cons.IH [of "[]"] split_from_not_Nil [of sep "[]" cs]
      by (auto simp: takeWhile_append)
  next
    case False
    then show ?thesis
      using Cons.IH [of "piece @ [c]"]
      by (auto simp: takeWhile_append)
  qed
qed

text \<open>The last piece of a split is the text after the last separator.\<close>

lemma last_py_split: "last (py_split s sep) = text_after_last sep s"
proof (cases "sep \<in> set s")
  case True
  then show ?thesis by (simp add: py_split_def last_split_from text_after_last_def)
next
  case False
  then have eq: "takeWhile (\<lambda>c. c \<noteq> sep) (rev s) = rev s"
    by auto
  show ?thesis by (simp add: py_split_def last_split_from False eq text_after_last_def)
qed

lemma split_from_join:
  "\<forall>x \<in> set (y # ys). sep \<notin> set x \<Longrightarrow> split_from sep [] (py_join [sep] (y # ys)) = y # ys"
proof (induction ys arbitrary: y)
  case Nil
  then show ?case by (simp add: split_from_no_sep)
next
  case (Cons z zs)
  then show ?case by (simp add: split_from_append)
qed

lemma py_split_join:
  "ids \<noteq> [] \<Longrightarrow> \<forall>x \<in> set ids. sep \<notin> set x \<Longrightarrow> py_split (py_join [sep] ids) sep = ids"
  using split_from_join [of "hd ids" "tl ids" sep] by (cases ids) (simp_all add: py_split_def)

lemma py_in_sublist: "py_in sub s \<longleftrightarrow> sublist sub s"
  by (induction s) (auto simp: py_in_def sublist_Cons_right)

lemma py_strip_id:
  assumes s: "s \<noteq> []" and h: "\<not> is_space (hd s)" and l: "\<not> is_space (last s)"
  shows "py_strip s = s"
proof -
  from h have 1: "dropWhile is_space s = s"
    by (simp add: dropWhile_eq_self_iff)
  from s l have 2: "dropWhile is_space (rev s) = rev s"
    by (simp add: dropWhile_eq_self_iff hd_rev)
  show ?thesis by (simp add: py_strip_def 1 2)
qed

lemma set_py_join: "set (py_join sep xs) \<subseteq> set sep \<union> \<Union> (set ` set xs)"
  by (induction sep xs rule: py_join.induct) auto

lemma py_join_not_Nil: "xs \<noteq> [] \<Longrightarrow> hd xs \<noteq> [] \<Longrightarrow> py_join sep xs \<noteq> []"
  by (induction sep xs rule: py_join.induct) auto

lemma py_join_not_Nil_last: "xs \<noteq> [] \<Longrightarrow> last xs \<noteq> [] \<Longrightarrow> py_join sep xs \<noteq> []"
  by (induction sep xs rule: py_join.induct) auto

lemma hd_py_join: "xs \<noteq> [] \<Longrightarrow> hd xs \<noteq> [] \<Longrightarrow> hd (py_join sep xs) = hd (hd xs)"
  by (induction sep xs rule: py_join.induct) auto

lemma last_py_join: "xs \<noteq> [] \<Longrightarrow> last xs \<noteq> [] \<Longrightarrow> last (py_join sep xs) = last (last xs)"
  by (induction sep xs rule: py_join.induct) (auto simp: py_join_not_Nil_last)

lemma find_sub_single: "c \<notin> set a \<Longrightarrow> find_sub [c] (a @ c # b) = Some (length a)"
  by (induction a) auto

lemma py_find_0: "py_find s sub 0 = (case find_sub sub s of None \<Rightarrow> - 1 | Some i \<Rightarrow> int i)"
  by (simp add: py_find_def split: option.split)

lemma py_find_from:
  "find_sub sub b = Some i \<Longrightarrow> py_find (a @ b) sub (int (length a)) = int (length a) + int i"
  by (simp add: py_find_def)

lemma py_slice_mid: "py_slice (a @ b @ c) (int (length a)) (int (length a) + int (length b)) = b"
  by (simp add: py_slice_def min_def)

lemma prefix_nth: "prefix xs ys \<Longrightarrow> i < length xs \<Longrightarrow> xs ! i = ys ! i"
  by (auto simp: prefix_def nth_append)

lemma prefix_short: "prefix m (a @ b) \<Longrightarrow> length m \<le> length a \<Longrightarrow> prefix m a"
  using prefix_length_prefix [of m "a @ b" a] by simp

section \<open>The mode of transcription\<close>

lemma mode_not_determined:
  "transcription_mode file_path url = NOT_DETERMINED \<longleftrightarrow> \<not> truthy file_path \<and> \<not> truthy url"
  by (simp add: transcription_mode_def truthy_def split: option.split)

lemma mode_needs_url:
  "transcription_mode file_path url = YOUTUBE \<or> transcription_mode file_path url = URL \<Longrightarrow>
   \<exists>u. url = Some u \<and> u \<noteq> []"
  by (auto simp: transcription_mode_def split: option.splits if_splits)

text \<open>
  C1, as the specification states it, fails: a URL that is supplied but empty is not
  classified as a direct URL. The source tests the truth value of \<open>url\<close>, and the
  empty string is false, so the mode stays undetermined.
\<close>

theorem mode_empty_url_counterexample:
  "transcription_mode None (Some (str '''')) = NOT_DETERMINED \<and>
   claimed_mode None (Some (str '''')) = URL"
  by (simp add: transcription_mode_def claimed_mode_def truthy_def str_Nil str_Cons)

text \<open>
  C1, amended: the classification is a function of the two optional inputs. A non-empty
  file path selects \<open>FILE\<close>, whatever the URL; otherwise a non-empty URL that starts
  with one of the two YouTube prefixes selects \<open>YOUTUBE\<close> and any other non-empty URL
  selects \<open>URL\<close>; when the file path is absent or empty and the URL is absent or empty,
  the mode is \<open>NOT_DETERMINED\<close>.
\<close>

theorem transcription_mode_cases:
  "(truthy file_path \<longrightarrow> transcription_mode file_path url = FILE) \<and>
   (\<not> truthy file_path \<and> u \<noteq> [] \<and>
      (prefix (str ''https://www.youtube.com/watch?v='') u \<or> prefix (str ''https://youtu.be/'') u)
      \<longrightarrow> transcription_mode file_path (Some u) = YOUTUBE) \<and>
   (\<not> truthy file_path \<and> u \<noteq> [] \<and>
      \<not> (prefix (str ''https://www.youtube.com/watch?v='') u \<or> prefix (str ''https://youtu.be/'') u)
      \<longrightarrow> transcription_mode file_path (Some u) = URL) \<and>
   (\<not> truthy file_path \<and> \<not> truthy url \<longrightarrow> transcription_mode file_path url = NOT_DETERMINED)"
  by (simp add: transcription_mode_def py_startswith_def truthy_def split: option.split)

theorem transcription_mode_cases_witness:
  "transcription_mode (Some (str ''a.wav'')) (Some (str ''https://youtu.be/x'')) = FILE \<and>
   transcription_mode None (Some (str ''https://youtu.be/x'')) = YOUTUBE \<and>
   transcription_mode (Some []) (Some (str ''https://example.com/a.mp3'')) = URL \<and>
   transcription_mode None None = NOT_DETERMINED"
  using transcription_mode_cases [of "Some (str ''a.wav'')" "Some (str ''https://youtu.be/x'')"
      "str ''https://youtu.be/x''"]
    transcription_mode_cases [of None None "str ''https://youtu.be/x''"]
    transcription_mode_cases [of "Some []" None "str ''https://example.com/a.mp3''"]
  by (simp add: truthy_def str_Nil str_Cons)

section \<open>Extraction of the transcript: facts\<close>

text \<open>The loop appends, in order, the text of every caption line.\<close>

lemma extract_loop_eq:
  "extract_loop ls acc = acc @ map caption_text (filter is_caption ls)"
  by (induction ls arbitrary: acc) auto

lemma caption_text_eq: "caption_text line = py_strip (text_after_last RBRACKET line)"
  by (simp add: caption_text_def last_py_split)

lemma is_caption_eq:
  "is_caption line \<longleftrightarrow> prefix [LBRACKET] line \<and> sublist (str ''-->'') line"
  by (simp add: is_caption_def py_startswith_def py_in_sublist)

lemma transcription_eq:
  "transcription raw =
     py_join [NL]
       (map (\<lambda>line. py_strip (text_after_last RBRACKET line))
          (filter (\<lambda>line. prefix [LBRACKET] line \<and> sublist (str ''-->'') line)
             (py_split raw NL)))"
  by (simp add: transcription_def transcription_lines_def extract_loop_eq
      caption_text_eq is_caption_eq cong: filter_cong map_cong)

text \<open>Splitting is the inverse of joining: the pieces, joined again, are the text.\<close>

lemma join_split_from: "py_join [sep] (split_from sep piece s) = piece @ s"
proof (induction s arbitrary: piece)
  case Nil
  show ?case by simp
next
  case (Cons c cs)
  show ?case
  proof (cases "c = sep")
    case True
    obtain p ps where ps: "split_from sep [] cs = p # ps"
      using split_from_not_Nil [of sep "[]" cs] by (cases "split_from sep [] cs") auto
    from Cons.IH [of "[]"] ps True show ?thesis by simp
  next
    case False
    with Cons.IH [of "piece @ [c]"] show ?thesis by simp
  qed
qed

lemma join_py_split: "py_join [sep] (py_split s sep) = s"
  by (simp add: py_split_def join_split_from)

lemma example_split:
  "py_split (str ''[00:00:00.000 --> 00:00:02.000]  hello world\<newline>some noise\<newline>[00:00:02.000 --> 00:00:04.000]  second line'') NL =
     [str ''[00:00:00.000 --> 00:00:02.000]  hello world'', str ''some noise'',
      str ''[00:00:02.000 --> 00:00:04.000]  second line'']"
  by (simp add: py_split_def str_Nil str_Cons NL_def)

lemma example_caption1: "is_caption (str ''[00:00:00.000 --> 00:00:02.000]  hello world'')"
  by (simp add: is_caption_def py_startswith_def py_in_def LBRACKET_def str_Nil str_Cons)

lemma example_caption2: "\<not> is_caption (str ''some noise'')"
  by (simp add: is_caption_def py_startswith_def py_in_def LBRACKET_def str_Nil str_Cons)

lemma example_caption3: "is_caption (str ''[00:00:02.000 --> 00:00:04.000]  second line'')"
  by (simp add: is_caption_def py_startswith_def py_in_def LBRACKET_def str_Nil str_Cons)

lemma example_text1:
  "caption_text (str ''[00:00:00.000 --> 00:00:02.000]  hello world'') = str ''hello world''"
  by (simp add: caption_text_eq text_after_last_def py_strip_def is_space_def RBRACKET_def
      str_Nil str_Cons)

lemma example_text3:
  "caption_text (str ''[00:00:02.000 --> 00:00:04.000]  second line'') = str ''second line''"
  by (simp add: caption_text_eq text_after_last_def py_strip_def is_space_def RBRACKET_def
      str_Nil str_Cons)

lemma example_transcription:
  "transcription (str ''[00:00:00.000 --> 00:00:02.000]  hello world\<newline>some noise\<newline>[00:00:02.000 --> 00:00:04.000]  second line'') =
     str ''hello world\<newline>second line''"
  by (simp add: transcription_def transcription_lines_def example_split example_caption1
      example_caption2 example_caption3 example_text1 example_text3)
    (simp add: str_Nil str_Cons NL_def)

text \<open>
  C2: for every raw output, the transcript is the join, with single newlines, of the
  texts of the kept lines: the lines of the output that begin with \<open>[\<close> and contain
  \<open>-->\<close>, each mapped to the text after its last \<open>]\<close>, trimmed. The output of the
  specification's example gives exactly the two caption texts. The transcript is a
  function of the raw output alone.
\<close>

theorem transcription_extraction:
  "transcription raw =
     py_join [NL]
       (map (\<lambda>line. py_strip (text_after_last RBRACKET line))
          (filter (\<lambda>line. prefix [LBRACKET] line \<and> sublist (str ''-->'') line)
             (py_split raw NL))) \<and>
   transcription (str ''[00:00:00.000 --> 00:00:02.000]  hello world\<newline>some noise\<newline>[00:00:02.000 --> 00:00:04.000]  second line'') =
     str ''hello world\<newline>second line''"
  using transcription_eq [of raw] example_transcription by (rule conjI)

text \<open>
  C10: a line of the raw output that begins with \<open>[\<close> and contains \<open>-->\<close> but has
  no \<open>]\<close> is kept: splitting it at \<open>]\<close> gives the line alone, and the transcript
  lines have the whole line, trimmed, at its place.
\<close>

theorem caption_without_closing_bracket:
  assumes "py_split raw NL = before @ line # after"
    and "py_startswith line [LBRACKET]"
    and "py_in (str ''-->'') line"
    and "RBRACKET \<notin> set line"
  shows "py_split line RBRACKET = [line] \<and>
    transcription_lines raw = extract_loop before [] @ py_strip line # extract_loop after []"
proof -
  from assms(4) have sp: "py_split line RBRACKET = [line]"
    by (simp add: py_split_def split_from_no_sep)
  then have ct: "caption_text line = py_strip line"
    by (simp add: caption_text_def)
  from assms(2,3) have cap: "is_caption line"
    by (simp add: is_caption_def)
  have "transcription_lines raw = extract_loop before [] @ py_strip line # extract_loop after []"
    by (simp add: transcription_lines_def assms(1) extract_loop_eq cap ct)
  with sp show ?thesis by simp
qed

theorem caption_without_closing_bracket_witness:
  "py_split (str ''noise\<newline>[0 --> 1  open text  '') NL =
     [str ''noise''] @ str ''[0 --> 1  open text  '' # [] \<and>
   py_startswith (str ''[0 --> 1  open text  '') [LBRACKET] \<and>
   py_in (str ''-->'') (str ''[0 --> 1  open text  '') \<and>
   RBRACKET \<notin> set (str ''[0 --> 1  open text  '') \<and>
   transcription_lines (str ''noise\<newline>[0 --> 1  open text  '') = [str ''[0 --> 1  open text'']"
proof -
  have 1: "py_split (str ''noise\<newline>[0 --> 1  open text  '') NL =
      [str ''noise''] @ str ''[0 --> 1  open text  '' # []"
    by (simp add: py_split_def str_Nil str_Cons NL_def)
  have 2: "py_startswith (str ''[0 --> 1  open text  '') [LBRACKET]"
    by (simp add: py_startswith_def LBRACKET_def str_Nil str_Cons)
  have 3: "py_in (str ''-->'') (str ''[0 --> 1  open text  '')"
    by (simp add: py_in_def str_Nil str_Cons)
  have 4: "RBRACKET \<notin> set (str ''[0 --> 1  open text  '')"
    by (simp add: RBRACKET_def str_Nil str_Cons)
  have 5: "\<not> is_caption (str ''noise'')"
    by (simp add: is_caption_def py_startswith_def LBRACKET_def str_Nil str_Cons)
  have 6: "py_strip (str ''[0 --> 1  open text  '') = str ''[0 --> 1  open text''"
    by (simp add: py_strip_def is_space_def str_Nil str_Cons)
  from caption_without_closing_bracket [OF 1 2 3 4]
  have "transcription_lines (str ''noise\<newline>[0 --> 1  open text  '') =
      [str ''[0 --> 1  open text'']"
    by (simp add: 5 6)
  with 1 2 3 4 show ?thesis by blast
qed

section \<open>The catalog of models: facts\<close>

lemma MARKER_eq: "MARKER = [109, 111, 100, 101, 108, 115, 61, 34]"
  by (simp add: MARKER_def QUOTE_def str_Nil str_Cons)

text \<open>
  No occurrence of the marker can start before the marker and run into it: the marker's
  first character occurs nowhere else in it.
\<close>

lemma MARKER_no_overlap:
  assumes "prefix MARKER (a @ MARKER @ rest)" and "a \<noteq> []"
  shows "prefix MARKER a"
proof (cases "length MARKER \<le> length a")
  case True
  with assms(1) show ?thesis by (rule prefix_short)
next
  case False
  define k where "k = length a"
  from False assms(2) have k: "0 < k" "k < 8" by (simp_all add: k_def MARKER_eq)
  from assms(1) False have "MARKER ! k = (a @ MARKER @ rest) ! k"
    by (intro prefix_nth) (simp_all add: k_def)
  then have eq: "MARKER ! k = MARKER ! 0"
    by (simp add: k_def nth_append MARKER_eq)
  from k have "k = 1 \<or> k = 2 \<or> k = 3 \<or> k = 4 \<or> k = 5 \<or> k = 6 \<or> k = 7" by arith
  with eq show ?thesis by (auto simp: MARKER_eq)
qed

lemma find_sub_MARKER_first:
  "find_sub MARKER pre = None \<Longrightarrow> find_sub MARKER (pre @ MARKER @ rest) = Some (length pre)"
proof (induction pre)
  case Nil
  then show ?case by (cases "MARKER @ rest") (simp_all add: MARKER_eq)
next
  case (Cons c p)
  from Cons.prems have np: "\<not> prefix MARKER (c # p)" and none: "find_sub MARKER p = None"
    by (auto split: if_splits)
  have "\<not> prefix MARKER ((c # p) @ MARKER @ rest)"
    using MARKER_no_overlap [of "c # p" rest] np by blast
  with Cons.IH [OF none] show ?case by simp
qed

lemma models_of_content_roundtrip:
  assumes pre: "\<not> py_in MARKER pre"
    and ne: "ids \<noteq> []"
    and ids: "\<forall>x \<in> set ids. x \<noteq> [] \<and> (\<forall>c \<in> set x. c \<noteq> QUOTE \<and> \<not> is_space c)"
  shows "models_of_content (pre @ MARKER @ py_join [NL] ids @ [QUOTE] @ rest) = ids"
proof -
  define body where "body = py_join [NL] ids"
  define content where "content = pre @ MARKER @ body @ [QUOTE] @ rest"
  have nlq: "NL \<noteq> QUOTE" by (simp add: NL_def QUOTE_def)
  have nlsp: "is_space NL" by (simp add: NL_def is_space_def)
  have qbody: "QUOTE \<notin> set body"
  proof
    assume "QUOTE \<in> set body"
    then have "QUOTE \<in> set [NL] \<union> \<Union> (set ` set ids)"
      using set_py_join [of "[NL]" ids] unfolding body_def by blast
    with nlq ids show False by auto
  qed
  have start: "py_find content MARKER 0 = int (length pre)"
    using pre find_sub_MARKER_first [of pre "body @ [QUOTE] @ rest"]
    by (simp add: py_find_0 content_def py_in_def)
  have c2: "content = (pre @ MARKER) @ (body @ QUOTE # rest)"
    by (simp add: content_def)
  have len: "int (length (pre @ MARKER)) = int (length pre) + 8"
    by (simp add: MARKER_eq)
  have "py_find content [QUOTE] (int (length (pre @ MARKER))) =
          int (length (pre @ MARKER)) + int (length body)"
    unfolding c2 by (rule py_find_from) (rule find_sub_single [OF qbody])
  then have stop: "py_find content [QUOTE] (int (length pre) + 8) =
      int (length pre) + 8 + int (length body)"
    by (simp only: len)
  have c3: "content = (pre @ MARKER) @ body @ (QUOTE # rest)"
    by (simp add: content_def)
  have "py_slice content (int (length (pre @ MARKER)))
          (int (length (pre @ MARKER)) + int (length body)) = body"
    unfolding c3 by (rule py_slice_mid)
  then have slice: "py_slice content (int (length pre) + 8)
      (int (length pre) + 8 + int (length body)) = body"
    by (simp only: len)
  from ne ids have hdne: "hd ids \<noteq> []" and lastne: "last ids \<noteq> []" by auto
  have bne: "body \<noteq> []" unfolding body_def using ne hdne by (rule py_join_not_Nil)
  have "hd body = hd (hd ids)" unfolding body_def using ne hdne by (rule hd_py_join)
  moreover have "hd (hd ids) \<in> set (hd ids)" using hdne by simp
  moreover have "hd ids \<in> set ids" using ne by simp
  ultimately have h: "\<not> is_space (hd body)" using ids by metis
  have "last body = last (last ids)" unfolding body_def using ne lastne by (rule last_py_join)
  moreover have "last (last ids) \<in> set (last ids)" using lastne by simp
  moreover have "last ids \<in> set ids" using ne by simp
  ultimately have l: "\<not> is_space (last body)" using ids by metis
  have strip: "py_strip body = body" using bne h l by (rule py_strip_id)
  have "\<forall>x \<in> set ids. NL \<notin> set x" using ids nlsp by auto
  with ne have split: "py_split body NL = ids" unfolding body_def by (rule py_split_join)
  have "models_of_content content = ids"
    by (simp add: models_of_content_def start stop slice strip split)
  then show ?thesis by (simp add: content_def body_def)
qed

text \<open>
  Without the marker, \<open>find\<close> answers \<open>-1\<close>, the start is 7, and the slice from there
  is split all the same.
\<close>

lemma models_no_marker:
  "\<not> py_in MARKER content \<Longrightarrow>
   models_of_content content =
     py_split (py_strip (py_slice content 7 (py_find content [QUOTE] 7))) NL"
  by (simp add: models_of_content_def py_find_0 py_in_def)

lemma script_no_marker: "\<not> py_in MARKER (str ''#!/bin/sh\<newline>echo none\<newline>'')"
  by (simp add: py_in_def MARKER_eq str_Nil str_Cons)

lemma script_models:
  "models_of_content (str ''#!/bin/sh\<newline>echo none\<newline>'') = [str ''sh'', str ''echo none'']"
proof -
  have "py_find (str ''#!/bin/sh\<newline>echo none\<newline>'') [QUOTE] 7 = - 1"
    by (simp add: py_find_def QUOTE_def str_Nil str_Cons)
  moreover have "py_slice (str ''#!/bin/sh\<newline>echo none\<newline>'') 7 (- 1) = str ''sh\<newline>echo none''"
    by (simp add: py_slice_def str_Nil str_Cons)
  moreover have "py_strip (str ''sh\<newline>echo none'') = str ''sh\<newline>echo none''"
    by (simp add: py_strip_def is_space_def str_Nil str_Cons)
  moreover have "py_split (str ''sh\<newline>echo none'') NL = [str ''sh'', str ''echo none'']"
    by (simp add: py_split_def NL_def str_Nil str_Cons)
  ultimately show ?thesis by (simp add: models_no_marker [OF script_no_marker])
qed

text \<open>
  C3, as the specification states it, fails: a manifest without the marker does not
  make the listing fail. A shell script of two lines, with no \<open>models="\<close> in it, gives
  a list of two "models", the text from index 7 on.
\<close>

theorem manifest_without_marker_counterexample:
  "\<not> py_in MARKER (str ''#!/bin/sh\<newline>echo none\<newline>'') \<and>
   get_whisper_models (Some (str ''#!/bin/sh\<newline>echo none\<newline>'')) =
     Inr [str ''sh'', str ''echo none'']"
  using script_no_marker script_models by (simp add: get_whisper_models_def)

text \<open>
  C3, amended: for every manifest text that does not contain the marker, listing the
  models does not fail. The source has no check of the marker and no error for the
  format of the manifest: no error is raised, and a sequence is returned, which is never
  empty. (What the sequence holds is the lemma \<open>models_no_marker\<close>.)
\<close>

theorem manifest_without_marker:
  "\<not> py_in MARKER content \<Longrightarrow>
   (\<forall>err. get_whisper_models (Some content) \<noteq> Inl err) \<and>
   (\<exists>models. get_whisper_models (Some content) = Inr models \<and> models \<noteq> [])"
  by (simp add: get_whisper_models_def models_of_content_def Let_def py_split_def
      split_from_not_Nil)

theorem manifest_without_marker_witness:
  "\<not> py_in MARKER (str ''# none tiny\<newline>base\<newline>'') \<and>
   (\<exists>models. get_whisper_models (Some (str ''# none tiny\<newline>base\<newline>'')) = Inr models \<and>
      models \<noteq> [])"
proof -
  have 1: "\<not> py_in MARKER (str ''# none tiny\<newline>base\<newline>'')"
    by (simp add: py_in_def MARKER_eq str_Nil str_Cons)
  from manifest_without_marker [OF 1] 1 show ?thesis
    by blast
qed

text \<open>
  C9: reading a manifest gives back the list of its \<open>models="..."\<close> field. The
  manifest is any text before the first marker, the marker, the identifiers joined by
  newlines, the closing quote and any text after it; there is at least one identifier,
  and an identifier is a non-empty string with no whitespace and no \<open>"\<close> in it.
  The listing is then exactly the sequence of identifiers, in order.
\<close>

theorem catalog_roundtrip:
  assumes "\<not> py_in MARKER pre"
    and "ids \<noteq> []"
    and "\<forall>x \<in> set ids. x \<noteq> [] \<and> (\<forall>c \<in> set x. c \<noteq> QUOTE \<and> \<not> is_space c)"
  shows "get_whisper_models (Some (pre @ MARKER @ py_join [NL] ids @ [QUOTE] @ rest)) = Inr ids"
  using models_of_content_roundtrip [OF assms] by (simp add: get_whisper_models_def)

text \<open>The specification's example: \<open>models="a\nb\nc"\<close> gives a, b, c.\<close>

theorem catalog_roundtrip_witness:
  "get_whisper_models (Some (str ''models='' @ [QUOTE] @ str ''a\<newline>b\<newline>c'' @ [QUOTE])) =
     Inr [str ''a'', str ''b'', str ''c'']"
proof -
  have eq: "str ''models='' @ [QUOTE] @ str ''a\<newline>b\<newline>c'' @ [QUOTE] =
      [] @ MARKER @ py_join [NL] [str ''a'', str ''b'', str ''c''] @ [QUOTE] @ []"
    by (simp add: MARKER_def NL_def str_Nil str_Cons)
  have 1: "\<not> py_in MARKER []"
    by (simp add: py_in_def MARKER_eq)
  have 2: "[str ''a'', str ''b'', str ''c''] \<noteq> []"
    by simp
  have 3: "\<forall>x \<in> set [str ''a'', str ''b'', str ''c''].
      x \<noteq> [] \<and> (\<forall>c \<in> set x. c \<noteq> QUOTE \<and> \<not> is_space c)"
    by (simp add: str_Nil str_Cons QUOTE_def is_space_def)
  show ?thesis
    unfolding eq by (rule catalog_roundtrip [OF 1 2 3])
qed

section \<open>The outside world: facts\<close>






section \<open>The workflows: facts\<close>

lemma example_manifest_models:
  "models_of_content example_manifest = [str ''tiny'', str ''base'']"
proof -
  have eq: "example_manifest =
      str ''# Whisper models\<newline>'' @ MARKER @ py_join [NL] [str ''tiny'', str ''base''] @
      [QUOTE] @ str ''\<newline>''"
    by (simp add: example_manifest_def MARKER_def NL_def str_Nil str_Cons)
  have 1: "\<not> py_in MARKER (str ''# Whisper models\<newline>'')"
    by (simp add: py_in_def MARKER_eq str_Nil str_Cons)
  have 2: "[str ''tiny'', str ''base''] \<noteq> []"
    by simp
  have 3: "\<forall>x \<in> set [str ''tiny'', str ''base''].
      x \<noteq> [] \<and> (\<forall>c \<in> set x. c \<noteq> QUOTE \<and> \<not> is_space c)"
    by (simp add: str_Nil str_Cons QUOTE_def is_space_def)
  show ?thesis
    unfolding eq by (rule models_of_content_roundtrip [OF 1 2 3])
qed

lemma inference_command_Some:
  "inference_command model (Some p) =
     str ''./whisper.cpp/build/bin/whisper-cli -m ./whisper.cpp/models/ggml-'' @ model @
     str ''.bin -f '' @ p"
  by (simp add: inference_command_def PREFIX_WHISPER_CPP_CLI_def WHISPER_CPP_PATH_def
      py_format_def str_def)

lemma transcript_path_Some: "transcript_path (Some p) = p @ str ''.txt''"
  by (simp add: transcript_path_def py_format_def)

lemma file_mode: "p \<noteq> [] \<Longrightarrow> transcription_mode (Some p) url = FILE"
  by (simp add: transcription_mode_def truthy_def)

lemma acquire_file: "acquire_audio e FILE file_path url w = (Inr file_path, w)"
  by (simp add: acquire_audio_def)

lemma infer_and_save_written:
  assumes "run_shell e (inference_command model audio_path) = Inr result"
    and "open_text e (transcript_path audio_path) = None"
  shows "infer_and_save e model audio_path w =
    (Inr (),
     w\<lparr>files := (files w)(transcript_path audio_path \<mapsto> Text (transcription (stdout result))),
       trace := trace w @
         [Call (Shell (inference_command model audio_path)),
          Open_write (transcript_path audio_path),
          Echo (Transcription_saved (transcript_path audio_path))]\<rparr>)"
  using assms
  by (simp add: infer_and_save_def Let_def write_text_def open_write_def emit_def)

lemma infer_and_save_not_opened:
  assumes "run_shell e (inference_command model audio_path) = Inr result"
    and "open_text e (transcript_path audio_path) = Some ex"
  shows "infer_and_save e model audio_path w =
    (Inl ex, w\<lparr>trace := trace w @ [Call (Shell (inference_command model audio_path))]\<rparr>)"
  using assms by (simp add: infer_and_save_def Let_def emit_def)

lemma acquire_audio_returncode:
  "acquire_audio (with_returncode rc e) mode file_path url w =
   acquire_audio e mode file_path url w"
  by (simp add: acquire_audio_def download_file_from_youtube_def download_file_from_url_def
      with_returncode_def split: option.split)

lemma infer_and_save_returncode:
  "infer_and_save (with_returncode rc e) model audio_path w =
   infer_and_save e model audio_path w"
  by (simp add: infer_and_save_def with_returncode_def Let_def split: sum.split)

lemma transcribe_returncode:
  "transcribe (with_returncode rc e) model file_path url w = transcribe e model file_path url w"
proof -
  have "manifest (with_returncode rc e) = manifest e"
    by (simp add: with_returncode_def)
  then show ?thesis
    by (simp add: transcribe_def Let_def acquire_audio_returncode infer_and_save_returncode
        split: sum.split prod.split)
qed

lemma transcribe_reaches_inference:
  assumes "transcription_mode file_path url \<noteq> NOT_DETERMINED"
    and "manifest e = Some content"
    and "model \<in> set (models_of_content content)"
    and "acquire_audio e (transcription_mode file_path url) file_path url w = (Inr audio_path, w1)"
  shows "transcribe e model file_path url w = infer_and_save e model audio_path w1"
  using assms by (simp add: transcribe_def get_whisper_models_def)

text \<open>A local file of the catalog's model \<open>tiny\<close> in the example environments.\<close>

lemma transcribe_local_file:
  assumes "p \<noteq> []" and "manifest e = Some example_manifest"
  shows "transcribe e (str ''tiny'') (Some p) None w = infer_and_save e (str ''tiny'') (Some p) w"
proof -
  from assms(1) have m: "transcription_mode (Some p) None = FILE"
    by (rule file_mode)
  have k: "str ''tiny'' \<in> set (models_of_content example_manifest)"
    by (simp add: example_manifest_models)
  show ?thesis
    by (rule transcribe_reaches_inference [OF _ assms(2) k]) (simp_all add: m acquire_file)
qed

lemma nodir_not_opened:
  "open_text (without_nodir e) (str ''nodir/'' @ p) = Some OSError"
  by (simp add: without_nodir_def)

lemma tiny_command:
  "inference_command (str ''tiny'') (Some p) =
     str ''./whisper.cpp/build/bin/whisper-cli -m ./whisper.cpp/models/ggml-tiny.bin -f '' @ p"
  by (simp add: inference_command_Some str_def)

text \<open>
  C4, as the specification states it, fails: with a result of the inference process in
  hand, the workflow can still raise. The transcript's path comes from the user; for a
  file path in a directory that does not exist, \<open>open\<close> raises, the error is not
  caught, and nothing is written or reported.
\<close>

theorem transcript_not_opened_counterexample:
  "transcribe
     (without_nodir
        (example_env (Some example_manifest) \<lparr>status_code = 200, iter_content = []\<rparr>
           \<lparr>returncode = 0, stdout = str ''[00:00:00.000 --> 00:00:02.000]  hello world'',
              stderr = []\<rparr>
           (\<lambda>argv. Inr 0)))
     (str ''tiny'') (Some (str ''nodir/a.wav'')) None quiet_world =
     (Inl OSError,
      \<lparr>files = Map.empty,
       trace =
         [Call (Shell (str ''./whisper.cpp/build/bin/whisper-cli -m ./whisper.cpp/models/ggml-tiny.bin -f nodir/a.wav''))]\<rparr>)"
proof -
  let ?r = "\<lparr>returncode = 0, stdout = str ''[00:00:00.000 --> 00:00:02.000]  hello world'',
      stderr = []\<rparr>"
  let ?e = "without_nodir
      (example_env (Some example_manifest) \<lparr>status_code = 200, iter_content = []\<rparr> ?r
         (\<lambda>argv. Inr 0))"
  have p: "str ''nodir/a.wav'' = str ''nodir/'' @ str ''a.wav''"
    by (simp add: str_def)
  have 1: "str ''nodir/a.wav'' \<noteq> []"
    by (simp add: str_def)
  have 2: "manifest ?e = Some example_manifest"
    by (simp add: without_nodir_def example_env_def)
  have 3: "run_shell ?e c = Inr ?r" for c
    by (simp add: without_nodir_def example_env_def)
  have 4: "open_text ?e (transcript_path (Some (str ''nodir/a.wav''))) = Some OSError"
    unfolding transcript_path_Some p append_assoc by (rule nodir_not_opened)
  have "transcribe ?e (str ''tiny'') (Some (str ''nodir/a.wav'')) None quiet_world =
      (Inl OSError,
       quiet_world\<lparr>trace := trace quiet_world @
         [Call (Shell (inference_command (str ''tiny'') (Some (str ''nodir/a.wav''))))]\<rparr>)"
    unfolding transcribe_local_file [OF 1 2] by (rule infer_and_save_not_opened [OF 3 4])
  then show ?thesis
    by (simp add: tiny_command quiet_world_def) (simp add: str_def)
qed

text \<open>
  C4, amended: the return code of the inference process is never read. Once the audio
  is acquired, for every result of the process, non-zero exit and output without caption
  lines included: when the transcript file can be opened, the workflow raises nothing,
  writes the transcript extracted from the captured output to the audio path followed by
  \<open>.txt\<close>, and reports that path; when it cannot, the error of \<open>open\<close> is raised
  after the inference has run, and nothing is written or reported. The workflow does the
  same when the return code is replaced by any other.
\<close>

theorem transcribe_ignores_exit_status:
  assumes "transcription_mode file_path url \<noteq> NOT_DETERMINED"
    and "manifest e = Some content"
    and "model \<in> set (models_of_content content)"
    and "acquire_audio e (transcription_mode file_path url) file_path url w = (Inr audio_path, w1)"
    and "run_shell e (inference_command model audio_path) = Inr result"
  shows "(open_text e (transcript_path audio_path) = None \<longrightarrow>
      transcribe e model file_path url w =
        (Inr (),
         w1\<lparr>files := (files w1)(transcript_path audio_path \<mapsto>
              Text (transcription (stdout result))),
            trace := trace w1 @
              [Call (Shell (inference_command model audio_path)),
               Open_write (transcript_path audio_path),
               Echo (Transcription_saved (transcript_path audio_path))]\<rparr>)) \<and>
    (open_text e (transcript_path audio_path) = Some ex \<longrightarrow>
      transcribe e model file_path url w =
        (Inl ex,
         w1\<lparr>trace := trace w1 @ [Call (Shell (inference_command model audio_path))]\<rparr>)) \<and>
    transcribe (with_returncode rc e) model file_path url w =
      transcribe e model file_path url w"
proof (intro conjI impI)
  assume "open_text e (transcript_path audio_path) = None"
  with assms(5) show "transcribe e model file_path url w =
      (Inr (),
       w1\<lparr>files := (files w1)(transcript_path audio_path \<mapsto>
            Text (transcription (stdout result))),
          trace := trace w1 @
            [Call (Shell (inference_command model audio_path)),
             Open_write (transcript_path audio_path),
             Echo (Transcription_saved (transcript_path audio_path))]\<rparr>)"
    unfolding transcribe_reaches_inference [OF assms(1-4)] by (rule infer_and_save_written)
next
  assume "open_text e (transcript_path audio_path) = Some ex"
  with assms(5) show "transcribe e model file_path url w =
      (Inl ex, w1\<lparr>trace := trace w1 @ [Call (Shell (inference_command model audio_path))]\<rparr>)"
    unfolding transcribe_reaches_inference [OF assms(1-4)] by (rule infer_and_save_not_opened)
next
  show "transcribe (with_returncode rc e) model file_path url w =
      transcribe e model file_path url w"
    by (rule transcribe_returncode)
qed

text \<open>
  Three runs for the model \<open>tiny\<close>, each with return code 1. An output with nothing
  but an error message: the transcript file is written, empty. The output of the
  specification's example: its two caption texts are written. A file path in a directory
  that does not exist: the error of \<open>open\<close> is raised.
\<close>

theorem transcribe_ignores_exit_status_witness:
  "transcribe
     (example_env (Some example_manifest) \<lparr>status_code = 200, iter_content = []\<rparr>
        \<lparr>returncode = 1, stdout = str ''error: failed to open'', stderr = []\<rparr> (\<lambda>argv. Inr 0))
     (str ''tiny'') (Some (str ''sample.wav'')) None quiet_world =
     (Inr (),
      \<lparr>files = [str ''sample.wav.txt'' \<mapsto> Text []],
       trace =
         [Call (Shell (str ''./whisper.cpp/build/bin/whisper-cli -m ./whisper.cpp/models/ggml-tiny.bin -f sample.wav'')),
          Open_write (str ''sample.wav.txt''),
          Echo (Transcription_saved (str ''sample.wav.txt''))]\<rparr>) \<and>
   transcribe
     (example_env (Some example_manifest) \<lparr>status_code = 200, iter_content = []\<rparr>
        \<lparr>returncode = 1,
           stdout = str ''[00:00:00.000 --> 00:00:02.000]  hello world\<newline>some noise\<newline>[00:00:02.000 --> 00:00:04.000]  second line'',
           stderr = []\<rparr>
        (\<lambda>argv. Inr 0))
     (str ''tiny'') (Some (str ''sample.wav'')) None quiet_world =
     (Inr (),
      \<lparr>files = [str ''sample.wav.txt'' \<mapsto> Text (str ''hello world\<newline>second line'')],
       trace =
         [Call (Shell (str ''./whisper.cpp/build/bin/whisper-cli -m ./whisper.cpp/models/ggml-tiny.bin -f sample.wav'')),
          Open_write (str ''sample.wav.txt''),
          Echo (Transcription_saved (str ''sample.wav.txt''))]\<rparr>) \<and>
   transcribe
     (without_nodir
        (example_env (Some example_manifest) \<lparr>status_code = 200, iter_content = []\<rparr>
           \<lparr>returncode = 1, stdout = str ''error: failed to open'', stderr = []\<rparr>
           (\<lambda>argv. Inr 0)))
     (str ''tiny'') (Some (str ''nodir/b.wav'')) None quiet_world =
     (Inl OSError,
      \<lparr>files = Map.empty,
       trace =
         [Call (Shell (str ''./whisper.cpp/build/bin/whisper-cli -m ./whisper.cpp/models/ggml-tiny.bin -f nodir/b.wav''))]\<rparr>)"
proof -
  let ?q = "\<lparr>status_code = 200, iter_content = []\<rparr>"
  let ?r1 = "\<lparr>returncode = 1, stdout = str ''error: failed to open'', stderr = []\<rparr>"
  let ?r2 = "\<lparr>returncode = 1,
      stdout = str ''[00:00:00.000 --> 00:00:02.000]  hello world\<newline>some noise\<newline>[00:00:02.000 --> 00:00:04.000]  second line'',
      stderr = []\<rparr>"
  let ?e1 = "example_env (Some example_manifest) ?q ?r1 (\<lambda>argv. Inr 0)"
  let ?e2 = "example_env (Some example_manifest) ?q ?r2 (\<lambda>argv. Inr 0)"
  let ?e3 = "without_nodir ?e1"
  have mode: "transcription_mode (Some (str ''sample.wav'')) None = FILE"
    "transcription_mode (Some (str ''nodir/b.wav'')) None = FILE"
    by (simp_all add: file_mode str_def)
  have nd: "transcription_mode (Some (str ''sample.wav'')) None \<noteq> NOT_DETERMINED"
    "transcription_mode (Some (str ''nodir/b.wav'')) None \<noteq> NOT_DETERMINED"
    by (simp_all add: mode)
  have man: "manifest ?e1 = Some example_manifest" "manifest ?e2 = Some example_manifest"
    "manifest ?e3 = Some example_manifest"
    by (simp_all add: example_env_def without_nodir_def)
  have known: "str ''tiny'' \<in> set (models_of_content example_manifest)"
    by (simp add: example_manifest_models)
  have acq: "acquire_audio e (transcription_mode (Some (str ''sample.wav'')) None)
      (Some (str ''sample.wav'')) None quiet_world = (Inr (Some (str ''sample.wav'')), quiet_world)"
    "acquire_audio e (transcription_mode (Some (str ''nodir/b.wav'')) None)
      (Some (str ''nodir/b.wav'')) None quiet_world = (Inr (Some (str ''nodir/b.wav'')), quiet_world)"
    for e
    by (simp_all add: mode acquire_file)
  have run: "run_shell ?e1 c = Inr ?r1" "run_shell ?e2 c = Inr ?r2" "run_shell ?e3 c = Inr ?r1"
    for c
    by (simp_all add: example_env_def without_nodir_def)
  have opened: "open_text ?e1 path = None" "open_text ?e2 path = None" for path
    by (simp_all add: example_env_def)
  have b: "str ''nodir/b.wav'' = str ''nodir/'' @ str ''b.wav''"
    by (simp add: str_def)
  have refused: "open_text ?e3 (transcript_path (Some (str ''nodir/b.wav''))) = Some OSError"
    unfolding transcript_path_Some b append_assoc by (rule nodir_not_opened)
  have t1: "transcription (str ''error: failed to open'') = []"
    by (simp add: transcription_def transcription_lines_def py_split_def NL_def is_caption_def
        py_startswith_def LBRACKET_def str_Nil str_Cons)
  have cmd: "inference_command (str ''tiny'') (Some (str ''sample.wav'')) =
      str ''./whisper.cpp/build/bin/whisper-cli -m ./whisper.cpp/models/ggml-tiny.bin -f sample.wav''"
    "inference_command (str ''tiny'') (Some (str ''nodir/b.wav'')) =
      str ''./whisper.cpp/build/bin/whisper-cli -m ./whisper.cpp/models/ggml-tiny.bin -f nodir/b.wav''"
    by (simp_all add: tiny_command) (simp_all add: str_def)
  have path: "transcript_path (Some (str ''sample.wav'')) = str ''sample.wav.txt''"
    by (simp add: transcript_path_Some str_def)
  note w1 = transcribe_ignores_exit_status [OF nd(1) man(1) known acq(1) run(1)]
  note w2 = transcribe_ignores_exit_status [OF nd(1) man(2) known acq(1) run(2)]
  note w3 = transcribe_ignores_exit_status [OF nd(2) man(3) known acq(2) run(3)]
  from w1 opened(1) have 1: "transcribe ?e1 (str ''tiny'') (Some (str ''sample.wav'')) None quiet_world =
      (Inr (),
       \<lparr>files = [str ''sample.wav.txt'' \<mapsto> Text []],
        trace =
          [Call (Shell (str ''./whisper.cpp/build/bin/whisper-cli -m ./whisper.cpp/models/ggml-tiny.bin -f sample.wav'')),
           Open_write (str ''sample.wav.txt''),
           Echo (Transcription_saved (str ''sample.wav.txt''))]\<rparr>)"
    by (simp add: t1 cmd path quiet_world_def)
  from w2 opened(2) have 2: "transcribe ?e2 (str ''tiny'') (Some (str ''sample.wav'')) None quiet_world =
      (Inr (),
       \<lparr>files = [str ''sample.wav.txt'' \<mapsto> Text (str ''hello world\<newline>second line'')],
        trace =
          [Call (Shell (str ''./whisper.cpp/build/bin/whisper-cli -m ./whisper.cpp/models/ggml-tiny.bin -f sample.wav'')),
           Open_write (str ''sample.wav.txt''),
           Echo (Transcription_saved (str ''sample.wav.txt''))]\<rparr>)"
    by (simp add: example_transcription cmd path quiet_world_def)
  from w3 refused have 3: "transcribe ?e3 (str ''tiny'') (Some (str ''nodir/b.wav'')) None quiet_world =
      (Inl OSError,
       \<lparr>files = Map.empty,
        trace =
          [Call (Shell (str ''./whisper.cpp/build/bin/whisper-cli -m ./whisper.cpp/models/ggml-tiny.bin -f nodir/b.wav''))]\<rparr>)"
    by (simp add: cmd quiet_world_def)
  from 1 2 3 show ?thesis by (intro conjI)
qed

text \<open>
  C6: when the model is not in the list read from the manifest, the workflow returns
  normally and the only thing it did is one message on the error channel: the files are
  as before and no call was made. The message names the models, unless no input was
  given, which is reported first.
\<close>

theorem transcribe_unknown_model:
  assumes "manifest e = Some content"
    and "model \<notin> set (models_of_content content)"
  shows "transcribe e model file_path url w =
    (Inr (),
     w\<lparr>trace := trace w @
         [Echo_err (if transcription_mode file_path url = NOT_DETERMINED
                    then Either_file_path_or_url
                    else Model_not_found (models_of_content content))]\<rparr>)"
  using assms by (simp add: transcribe_def get_whisper_models_def emit_def)

theorem transcribe_unknown_model_witness:
  "transcribe
     (example_env (Some example_manifest) \<lparr>status_code = 200, iter_content = []\<rparr>
        \<lparr>returncode = 0, stdout = [], stderr = []\<rparr> (\<lambda>argv. Inr 0))
     (str ''huge'') None (Some (str ''https://youtu.be/x'')) quiet_world =
     (Inr (),
      \<lparr>files = Map.empty, trace = [Echo_err (Model_not_found [str ''tiny'', str ''base''])]\<rparr>)"
proof -
  let ?e = "example_env (Some example_manifest) \<lparr>status_code = 200, iter_content = []\<rparr>
        \<lparr>returncode = 0, stdout = [], stderr = []\<rparr> (\<lambda>argv. Inr 0)"
  have 1: "manifest ?e = Some example_manifest"
    by (simp add: example_env_def)
  have 2: "str ''huge'' \<notin> set (models_of_content example_manifest)"
    by (simp add: example_manifest_models str_Nil str_Cons)
  have 3: "transcription_mode None (Some (str ''https://youtu.be/x'')) = YOUTUBE"
    by (simp add: transcription_mode_def truthy_def py_startswith_def str_Nil str_Cons)
  from transcribe_unknown_model [OF 1 2, of None "Some (str ''https://youtu.be/x'')" quiet_world]
  show ?thesis
    by (simp add: 3 example_manifest_models quiet_world_def)
qed

text \<open>
  C7: with neither a file path nor a URL, the workflow returns normally after one
  message on the error channel, the input error. The manifest is not read, the files are
  as before, no call was made.
\<close>

theorem transcribe_without_input:
  "transcribe e model None None w =
     (Inr (), w\<lparr>trace := trace w @ [Echo_err Either_file_path_or_url]\<rparr>)"
  by (simp add: transcribe_def transcription_mode_def truthy_def emit_def)

text \<open>What the two programs are run from.\<close>

lemma download_argv_eq:
  "download_argv model = [str ''./whisper.cpp/models/download-ggml-model.sh'', model]"
  by (simp add: download_argv_def WHISPER_CPP_PATH_def str_def)

lemma prepare_argv_eq:
  "prepare_argv model = [str ''./whisper.cpp/models/generate-coreml-model.sh '' @ model]"
  by (simp add: prepare_argv_def WHISPER_CPP_PATH_def str_def)

lemma download_model_known:
  assumes "manifest e = Some content" and "model \<in> set (models_of_content content)"
  shows "download_model e model w =
    (case download_and_prepare e model w of
       (Inl (CalledProcessError rc), w1) \<Rightarrow> (Inr (), emit (Echo_err (Command_failed rc)) w1)
     | r \<Rightarrow> r)"
  using assms by (simp add: download_model_def get_whisper_models_def)

text \<open>A download script that exits with a code other than 0 is reported.\<close>

lemma download_failure_reported:
  assumes "manifest e = Some content" and "model \<in> set (models_of_content content)"
    and "run_argv e (download_argv model) = Inr rc" and "rc \<noteq> 0"
  shows "download_model e model w =
    (Inr (),
     w\<lparr>trace := trace w @ [Call (Exec (download_argv model)), Echo_err (Command_failed rc)]\<rparr>)"
  using assms(3,4)
  by (simp add: download_model_known [OF assms(1,2)] download_and_prepare_def run_checked_def
      emit_def)

text \<open>
  A program that cannot be launched raises an error that is not
  \<open>CalledProcessError\<close>: the handler does not catch it and nothing is reported.
\<close>

lemma preparation_not_launched:
  assumes "manifest e = Some content" and "model \<in> set (models_of_content content)"
    and "run_argv e (download_argv model) = Inr 0"
    and "run_argv e (prepare_argv model) = Inl OSError"
  shows "download_model e model w =
    (Inl OSError,
     w\<lparr>trace := trace w @
        [Call (Exec (download_argv model)), Echo (Successfully_downloaded model),
         Call (Exec (prepare_argv model))]\<rparr>)"
  using assms(3,4)
  by (simp add: download_model_known [OF assms(1,2)] download_and_prepare_def run_checked_def
      emit_def)

lemma layout_download:
  "scripts_layout download_rc prepare_rc (download_argv model) = Inr download_rc"
  by (simp add: scripts_layout_def download_argv_eq)

lemma layout_prepare:
  "scripts_layout download_rc prepare_rc (prepare_argv (str ''tiny'')) = Inl OSError"
  by (simp add: scripts_layout_def prepare_argv_eq str_Nil str_Cons)

text \<open>
  C8 holds of the download script and fails of the preparation script: the source does
  not do what the claim says, by a slip. The download is run from the script's path and
  the model, two arguments. The preparation is run from a list of one string, the
  script's path, a space and the model: it names no program of the model directory, so
  the script is never launched. With the model \<open>tiny\<close> of the catalog, a download that
  succeeds and a preparation script that would exit with any code, the launch raises,
  the error is not caught, and neither a failure nor a success of the preparation is
  reported.
\<close>

theorem download_model_preparation_not_launched:
  "download_model
     (example_env (Some example_manifest) \<lparr>status_code = 200, iter_content = []\<rparr>
        \<lparr>returncode = 0, stdout = [], stderr = []\<rparr> (scripts_layout 0 prepare_rc))
     (str ''tiny'') quiet_world =
     (Inl OSError,
      \<lparr>files = Map.empty,
       trace =
         [Call (Exec [str ''./whisper.cpp/models/download-ggml-model.sh'', str ''tiny'']),
          Echo (Successfully_downloaded (str ''tiny'')),
          Call (Exec [str ''./whisper.cpp/models/generate-coreml-model.sh tiny''])]\<rparr>)"
proof -
  let ?e = "example_env (Some example_manifest) \<lparr>status_code = 200, iter_content = []\<rparr>
      \<lparr>returncode = 0, stdout = [], stderr = []\<rparr> (scripts_layout 0 prepare_rc)"
  have 1: "manifest ?e = Some example_manifest"
    by (simp add: example_env_def)
  have 2: "str ''tiny'' \<in> set (models_of_content example_manifest)"
    by (simp add: example_manifest_models)
  have 3: "run_argv ?e (download_argv (str ''tiny'')) = Inr 0"
    by (simp add: example_env_def layout_download)
  have 4: "run_argv ?e (prepare_argv (str ''tiny'')) = Inl OSError"
    by (simp add: example_env_def layout_prepare)
  have 5: "prepare_argv (str ''tiny'') = [str ''./whisper.cpp/models/generate-coreml-model.sh tiny'']"
    by (simp add: prepare_argv_eq str_def)
  show ?thesis
    unfolding preparation_not_launched [OF 1 2 3 4]
    by (simp add: download_argv_eq 5 quiet_world_def)
qed

end
